theory Spec2Isabelle
  imports Complex_Main "HOL-Library.Word"
begin

section \<open>Overview\<close>

text \<open>
  The class \<open>LogarithmicOperator\<close> of \<open>src/operators/logarithmic.h\<close>: its constructor,
  \<open>setParameters\<close>, \<open>process\<close>, \<open>graph\<close> and \<open>map\<close>, and the functions of its fragment
  shader. A function that can throw returns a sum with the error on the left; \<open>process\<close>,
  which writes through the pointers \<open>dst\<close> and \<open>progress\<close>, takes the caller's memory
  and progress value and returns them updated, also when it throws. Every function that
  computes with \<open>float\<close> takes the arithmetic as its first argument.
\<close>

section \<open>The C++ type float\<close>

text \<open>
  The operator computes with the C++ type \<open>float\<close>. A value of that type is a finite
  number, one of the two infinities, or not-a-number. The special values follow IEEE 754
  and Annex F of the C standard (division by zero, logarithm of zero and of a negative
  number, arithmetic on infinities, comparisons with NaN); there is one zero, so the sign
  of a zero is not represented.
\<close>

datatype float = Fin real | PInf | NInf | NaN

text \<open>
  The result of an operation on finite values is the exact real result, rounded. The
  rounding is a parameter of every operation, with two readings:
  \<^item> \<open>Exact\<close>: no rounding; the arithmetic of the mathematical formula the code denotes;
  \<^item> \<open>Binary32\<close>: IEEE 754 single precision, round to nearest, ties to even, which is
    what \<open>+\<close>, \<open>*\<close>, \<open>/\<close> and the conversion from \<open>int\<close> do on a C++ \<open>float\<close>.
    The library functions \<open>log10\<close>, \<open>log\<close> and \<open>pow\<close> are taken as correctly rounded.
\<close>

datatype arith = Exact | Binary32

definition round_half_even :: "real \<Rightarrow> int" where
  "round_half_even x =
     (let f = \<lfloor>x\<rfloor> in
      if x - of_int f < 1 / 2 then f
      else if 1 / 2 < x - of_int f then f + 1
      else if even f then f else f + 1)"

text \<open>
  Binary32 has 24 significant bits and exponents from \<open>-126\<close> to \<open>127\<close>: the spacing of
  the representable numbers around \<open>x\<close> is \<open>2 ^ (e - 23)\<close> with \<open>e\<close> the binary exponent
  of \<open>x\<close>, at least \<open>-126\<close>. A rounded magnitude of \<open>2 ^ 128\<close> or more overflows.
\<close>

definition round32 :: "real \<Rightarrow> float" where
  "round32 x =
     (if x = 0 then Fin 0
      else
        let e = max \<lfloor>log 2 \<bar>x\<bar>\<rfloor> (- 126);
            ulp = 2 powi (e - 23);
            y = of_int (round_half_even (x / ulp)) * ulp
        in if 2 ^ 128 \<le> \<bar>y\<bar> then (if 0 < x then PInf else NInf) else Fin y)"

fun rnd :: "arith \<Rightarrow> real \<Rightarrow> float" where
  "rnd Exact x = Fin x"
| "rnd Binary32 x = round32 x"

text \<open>A literal such as \<open>2.2f\<close>, and the conversion of an \<open>int\<close> to \<open>float\<close>.\<close>

definition float_lit :: "arith \<Rightarrow> real \<Rightarrow> float" where
  "float_lit a x = rnd a x"

definition float_of_int :: "arith \<Rightarrow> int \<Rightarrow> float" where
  "float_of_int a n = rnd a (of_int n)"

fun fadd :: "arith \<Rightarrow> float \<Rightarrow> float \<Rightarrow> float" where
  "fadd a (Fin x) (Fin y) = rnd a (x + y)"
| "fadd a NaN y = NaN"
| "fadd a x NaN = NaN"
| "fadd a PInf NInf = NaN"
| "fadd a NInf PInf = NaN"
| "fadd a PInf y = PInf"
| "fadd a x PInf = PInf"
| "fadd a NInf y = NInf"
| "fadd a x NInf = NInf"

text \<open>The sign of a product or quotient with an infinite operand.\<close>

definition signed_inf :: "bool \<Rightarrow> float" where
  "signed_inf negative = (if negative then NInf else PInf)"

fun fmul :: "arith \<Rightarrow> float \<Rightarrow> float \<Rightarrow> float" where
  "fmul a (Fin x) (Fin y) = rnd a (x * y)"
| "fmul a NaN y = NaN"
| "fmul a x NaN = NaN"
| "fmul a PInf (Fin y) = (if y = 0 then NaN else signed_inf (y < 0))"
| "fmul a NInf (Fin y) = (if y = 0 then NaN else signed_inf (0 < y))"
| "fmul a (Fin x) PInf = (if x = 0 then NaN else signed_inf (x < 0))"
| "fmul a (Fin x) NInf = (if x = 0 then NaN else signed_inf (0 < x))"
| "fmul a PInf PInf = PInf"
| "fmul a NInf NInf = PInf"
| "fmul a PInf NInf = NInf"
| "fmul a NInf PInf = NInf"

text \<open>
  Division does not trap: a finite nonzero number divided by zero is an infinity, and
  \<open>0 / 0\<close> is NaN.
\<close>

fun fdiv :: "arith \<Rightarrow> float \<Rightarrow> float \<Rightarrow> float" where
  "fdiv a (Fin x) (Fin y) =
     (if y = 0 then (if x = 0 then NaN else signed_inf (x < 0)) else rnd a (x / y))"
| "fdiv a NaN y = NaN"
| "fdiv a x NaN = NaN"
| "fdiv a (Fin x) PInf = Fin 0"
| "fdiv a (Fin x) NInf = Fin 0"
| "fdiv a PInf (Fin y) = signed_inf (y < 0)"
| "fdiv a NInf (Fin y) = signed_inf (0 \<le> y)"
| "fdiv a PInf y = NaN"
| "fdiv a NInf y = NaN"

text \<open>The comparison \<open><\<close>; it is false whenever an operand is NaN.\<close>

fun fless :: "float \<Rightarrow> float \<Rightarrow> bool" where
  "fless (Fin x) (Fin y) = (x < y)"
| "fless NaN y = False"
| "fless x NaN = False"
| "fless x NInf = False"
| "fless NInf y = True"
| "fless PInf y = False"
| "fless x PInf = True"

text \<open>\<open>std::log10\<close>, and the natural logarithm \<open>log\<close> of the shading language.\<close>

fun flog10 :: "arith \<Rightarrow> float \<Rightarrow> float" where
  "flog10 a (Fin x) = (if x < 0 then NaN else if x = 0 then NInf else rnd a (log 10 x))"
| "flog10 a PInf = PInf"
| "flog10 a NInf = NaN"
| "flog10 a NaN = NaN"

fun flog :: "arith \<Rightarrow> float \<Rightarrow> float" where
  "flog a (Fin x) = (if x < 0 then NaN else if x = 0 then NInf else rnd a (ln x))"
| "flog a PInf = PInf"
| "flog a NInf = NaN"
| "flog a NaN = NaN"

text \<open>
  \<open>std::pow\<close>, with the special cases of Annex F: \<open>pow(x, 0)\<close> and \<open>pow(1, y)\<close> are 1
  for every operand, NaN included; a negative base has a power only for an integral
  exponent.
\<close>

definition is_integer :: "real \<Rightarrow> bool" where
  "is_integer y = (of_int \<lfloor>y\<rfloor> = y)"

definition is_odd_integer :: "real \<Rightarrow> bool" where
  "is_odd_integer y = (is_integer y \<and> odd \<lfloor>y\<rfloor>)"

fun fpow_cases :: "arith \<Rightarrow> float \<Rightarrow> float \<Rightarrow> float" where
  "fpow_cases a (Fin x) (Fin y) =
     (if x = 0 then (if y < 0 then PInf else Fin 0)
      else if 0 < x then rnd a (x powr y)
      else if is_odd_integer y then rnd a (- (\<bar>x\<bar> powr y))
      else if is_integer y then rnd a (\<bar>x\<bar> powr y)
      else NaN)"
| "fpow_cases a NaN y = NaN"
| "fpow_cases a x NaN = NaN"
| "fpow_cases a (Fin x) PInf = (if \<bar>x\<bar> < 1 then Fin 0 else if \<bar>x\<bar> = 1 then Fin 1 else PInf)"
| "fpow_cases a (Fin x) NInf = (if \<bar>x\<bar> < 1 then PInf else if \<bar>x\<bar> = 1 then Fin 1 else Fin 0)"
| "fpow_cases a PInf (Fin y) = (if y < 0 then Fin 0 else PInf)"
| "fpow_cases a NInf (Fin y) = (if y < 0 then Fin 0 else if is_odd_integer y then NInf else PInf)"
| "fpow_cases a PInf PInf = PInf"
| "fpow_cases a NInf PInf = PInf"
| "fpow_cases a PInf NInf = Fin 0"
| "fpow_cases a NInf NInf = Fin 0"

definition fpow :: "arith \<Rightarrow> float \<Rightarrow> float \<Rightarrow> float" where
  "fpow a x y = (if y = Fin 0 \<or> x = Fin 1 then Fin 1 else fpow_cases a x y)"

text \<open>
  The cast \<open>(uint8_t)\<close> of a \<open>float\<close> discards the fractional part (rounds toward zero).
  C++ defines it only when the truncated value is between 0 and 255; outside that range,
  and on an infinity or NaN, the model takes the low byte of the truncated value, and 0.
\<close>

definition trunc_toward_zero :: "real \<Rightarrow> int" where
  "trunc_toward_zero x = (if 0 \<le> x then \<lfloor>x\<rfloor> else \<lceil>x\<rceil>)"

fun to_uint8 :: "float \<Rightarrow> 8 word" where
  "to_uint8 (Fin x) = word_of_int (trunc_toward_zero x)"
| "to_uint8 PInf = 0"
| "to_uint8 NInf = 0"
| "to_uint8 NaN = 0"

section \<open>Data model\<close>

text \<open>
  The header \<open>tonemap.h\<close> with \<open>Parameter\<close>, \<open>Color3f\<close>, \<open>Image\<close>, \<open>clamp\<close> and the
  base class \<open>TonemapOperator\<close> is not part of the sources at hand; the definitions of
  this section follow the specification, each under its own remark.
\<close>

text \<open>
  Modelled from the spec: the struct \<open>Parameter\<close> is missing. It holds a current value,
  a range, the name of the shader uniform and a description, and has two construction
  forms: user-adjustable (value, range, name, description) and derived, read-only (value
  and name only).
\<close>

datatype Parameter =
    Parameter float float float string string
  | ParameterConst float string

fun value_of :: "Parameter \<Rightarrow> float" where
  "value_of (Parameter v lo hi uniform descr) = v"
| "value_of (ParameterConst v uniform) = v"

text \<open>Modelled from the spec: the function \<open>clamp(value, min, max)\<close> is missing.\<close>

definition clamp :: "float \<Rightarrow> float \<Rightarrow> float \<Rightarrow> float" where
  "clamp v lo hi = (if fless v lo then lo else if fless hi v then hi else v)"

text \<open>
  Modelled from the spec: the class \<open>Color3f\<close> is missing. It is an RGB triple; its
  luminance is the weighted sum \<open>0.212671 r + 0.71516 g + 0.072169 b\<close>, \<open>clampedValue\<close>
  clamps each channel to \<open>[0, 1]\<close>, and \<open>gammaCorrect\<close> raises each channel to the power
  \<open>1 / gamma\<close>. The product \<open>s * color\<close> with a scalar and the quotient \<open>color / s\<close>
  by a scalar act on each channel.
\<close>

datatype Color3f = Color3f (r: float) (g: float) (b: float)

definition getLuminance :: "arith \<Rightarrow> Color3f \<Rightarrow> float" where
  "getLuminance a c =
     fadd a (fadd a (fmul a (float_lit a 0.212671) (r c)) (fmul a (float_lit a 0.71516) (g c)))
       (fmul a (float_lit a 0.072169) (b c))"

definition clampedValue :: "Color3f \<Rightarrow> Color3f" where
  "clampedValue c =
     Color3f (clamp (r c) (Fin 0) (Fin 1)) (clamp (g c) (Fin 0) (Fin 1))
       (clamp (b c) (Fin 0) (Fin 1))"

definition gammaCorrect :: "arith \<Rightarrow> Color3f \<Rightarrow> float \<Rightarrow> Color3f" where
  "gammaCorrect a c gamma =
     Color3f (fpow a (r c) (fdiv a (Fin 1) gamma)) (fpow a (g c) (fdiv a (Fin 1) gamma))
       (fpow a (b c) (fdiv a (Fin 1) gamma))"

definition scale_color :: "arith \<Rightarrow> float \<Rightarrow> Color3f \<Rightarrow> Color3f" where
  "scale_color a s c = Color3f (fmul a s (r c)) (fmul a s (g c)) (fmul a s (b c))"

definition divide_color :: "arith \<Rightarrow> Color3f \<Rightarrow> float \<Rightarrow> Color3f" where
  "divide_color a c s = Color3f (fdiv a (r c) s) (fdiv a (g c) s) (fdiv a (b c) s)"

text \<open>
  Modelled from the spec: the class \<open>Image\<close> is missing. It exposes its size as a pair
  of \<open>int\<close> (\<open>x\<close> the width, \<open>y\<close> the height), read access \<open>ref(row, column)\<close> to its
  colour samples, and a precomputed maximum luminance.
\<close>

record Image =
  size_x :: int
  size_y :: int
  ref :: "int \<Rightarrow> int \<Rightarrow> Color3f"
  getMaximumLuminance :: float

text \<open>
  The shader program: its name and the two source texts, each as the list of its lines
  (the text is the lines joined by newlines).
\<close>

record Shader =
  shader_name :: string
  vertex_source :: "string list"
  fragment_source :: "string list"

record LogarithmicOperator =
  parameters :: "string \<rightharpoonup> Parameter"
  name :: string
  description :: string
  shader :: Shader

text \<open>\<open>std::map::at\<close> throws \<open>std::out_of_range\<close> on a key that is not in the map.\<close>

datatype error = OutOfRange

definition at_key :: "(string \<rightharpoonup> Parameter) \<Rightarrow> string \<Rightarrow> error + Parameter" where
  "at_key m k = (case m k of None \<Rightarrow> Inl OutOfRange | Some v \<Rightarrow> Inr v)"

text \<open>
  Modelled from the spec: the constructor of the base class \<open>TonemapOperator\<close> is
  missing. It leaves the parameter mapping empty and the texts unset.
\<close>

definition TonemapOperator :: LogarithmicOperator where
  "TonemapOperator =
     \<lparr>parameters = Map.empty, name = [], description = [],
      shader = \<lparr>shader_name = [], vertex_source = [], fragment_source = []\<rparr>\<rparr>"

section \<open>The logarithmic operator\<close>

subsection \<open>Construction\<close>

definition vertex_shader :: "string list" where
  "vertex_shader =
    [[],
     ''            #version 330'',
     ''            in vec2 position;'',
     ''            out vec2 uv;'',
     ''            void main() {'',
     ''                gl_Position = vec4(position.x*2-1, position.y*2-1, 0.0, 1.0);'',
     ''                uv = vec2(position.x, 1-position.y);'',
     ''            }'',
     ''            '']"

definition fragment_shader :: "string list" where
  "fragment_shader =
    [[],
     ''            #version 330'',
     ''            uniform sampler2D source;'',
     ''            uniform float exposure;'',
     ''            uniform float gamma;'',
     ''            uniform float Lmax;'',
     ''            uniform float p;'',
     ''            uniform float q;'',
     ''            in vec2 uv;'',
     ''            out vec4 out_color;'',
     [],
     ''            vec4 clampedValue(vec4 color) {'',
     ''                color.a = 1.0;'',
     ''                return clamp(color, 0.0, 1.0);'',
     ''            }'',
     [],
     ''            vec4 gammaCorrect(vec4 color) {'',
     ''                return pow(color, vec4(1.0/gamma));'',
     ''            }'',
     [],
     ''            float getLuminance(vec4 color) {'',
     ''                return 0.212671 * color.r + 0.71516 * color.g + 0.072169 * color.b;'',
     ''            }'',
     [],
     ''            vec4 adjustColor(vec4 color, float L, float Ld) {'',
     ''                return Ld * color / L;'',
     ''            }'',
     [],
     ''            void main() {'',
     ''                vec4 color = exposure * texture(source, uv);'',
     ''                float L = getLuminance(color);'',
     ''                float Ld = (log(1.0 + p * L)/log(10.0)) / (log(1.0 + q * exposure * Lmax)/log(10.0));'',
     ''                color = adjustColor(color, L, Ld);'',
     ''                color = clampedValue(color);'',
     ''                out_color = gammaCorrect(color);'',
     ''            }'',
     ''            '']"

definition citation :: string where
  "citation =
     ''Logarthmic Mapping'' @ [CHR 0x0A, CHR 0x0A] @ ''Discussed in '' @ [CHR 0x22] @
     ''Quantization Techniques for Visualization of High Dynamic Range Pictures'' @
     [CHR 0x22] @ '' by Schlick 1994.''"

definition LogarithmicOperator :: "arith \<Rightarrow> LogarithmicOperator" where
  "LogarithmicOperator a =
     (let this = TonemapOperator;
          this = this\<lparr>parameters := (parameters this)(''Gamma'' \<mapsto>
                   Parameter (float_lit a 2.2) (Fin 0) (Fin 10) ''gamma'' ''Gamma correction value'')\<rparr>;
          this = this\<lparr>parameters := (parameters this)(''p'' \<mapsto>
                   Parameter (Fin 1) (Fin 0) (Fin 20) ''p'' ''Exponent numerator scale factor'')\<rparr>;
          this = this\<lparr>parameters := (parameters this)(''q'' \<mapsto>
                   Parameter (Fin 1) (Fin 0) (Fin 20) ''q'' ''Exponent denominator scale factor'')\<rparr>;
          this = this\<lparr>name := ''Logarithmic''\<rparr>;
          this = this\<lparr>description := citation\<rparr>;
          this = this\<lparr>shader := \<lparr>shader_name = ''Logarithmic'', vertex_source = vertex_shader,
                   fragment_source = fragment_shader\<rparr>\<rparr>
      in this)"

subsection \<open>setParameters\<close>

definition setParameters :: "LogarithmicOperator \<Rightarrow> Image \<Rightarrow> LogarithmicOperator" where
  "setParameters this img =
     this\<lparr>parameters := (parameters this)(''Lmax'' \<mapsto>
       ParameterConst (getMaximumLuminance img) ''Lmax'')\<rparr>"

subsection \<open>map\<close>

definition map_Ld :: "arith \<Rightarrow> float \<Rightarrow> float \<Rightarrow> float \<Rightarrow> float \<Rightarrow> float \<Rightarrow> float" where
  "map_Ld a Lw exposure Lmax p q =
     (let L = fmul a exposure Lw;
          Ld = fdiv a (flog10 a (fadd a (Fin 1) (fmul a p L)))
                 (flog10 a (fadd a (Fin 1) (fmul a (fmul a q exposure) Lmax)))
      in Ld)"

subsection \<open>process\<close>

text \<open>
  The caller's side of \<open>process\<close>: the memory that \<open>dst\<close> points into, as a map from
  addresses to bytes, and the progress value that \<open>progress\<close> points to.
\<close>

record World =
  mem :: "nat \<Rightarrow> 8 word"
  progress :: float

text \<open>The loop \<open>for (int k = lo; k < hi; ++k) body\<close> on a state \<open>s\<close>.\<close>

function for_loop :: "int \<Rightarrow> int \<Rightarrow> (int \<Rightarrow> 's \<Rightarrow> 's) \<Rightarrow> 's \<Rightarrow> 's" where
  "for_loop k hi body s = (if k < hi then for_loop (k + 1) hi body (body k s) else s)"
  by pat_completeness auto
termination
  by (relation "measure (\<lambda>(k, hi, body, s). nat (hi - k))") auto

declare for_loop.simps [simp del]

text \<open>Lines 93 to 98: the colour of one pixel after mapping, clamping and gamma.\<close>

definition process_color ::
  "arith \<Rightarrow> float \<Rightarrow> float \<Rightarrow> float \<Rightarrow> float \<Rightarrow> float \<Rightarrow> Color3f \<Rightarrow> Color3f" where
  "process_color a exposure gamma Lmax p q color =
     (let Lw = getLuminance a color;
          Ld = map_Ld a Lw exposure Lmax p q;
          c = divide_color a (scale_color a Ld color) Lw;
          c = clampedValue c;
          c = gammaCorrect a c gamma
      in c)"

text \<open>The body of the inner loop, on the pointer \<open>dst\<close> and the caller's side.\<close>

definition process_pixel ::
  "arith \<Rightarrow> Image \<Rightarrow> float \<Rightarrow> float \<Rightarrow> float \<Rightarrow> float \<Rightarrow> float \<Rightarrow> float \<Rightarrow>
   int \<Rightarrow> int \<Rightarrow> nat \<times> World \<Rightarrow> nat \<times> World" where
  "process_pixel a img exposure delta gamma Lmax p q i j s =
     (let (dst, w) = s;
          c = process_color a exposure gamma Lmax p q (ref img i j);
          m = mem w;
          m = m(dst := to_uint8 (fmul a (Fin 255) (r c)));
          m = m(dst + 1 := to_uint8 (fmul a (Fin 255) (g c)));
          m = m(dst + 2 := to_uint8 (fmul a (Fin 255) (b c)));
          dst = dst + 3
      in (dst, w\<lparr>mem := m, progress := fadd a (progress w) delta\<rparr>))"

text \<open>
  The increment of the progress value. The product of the two sizes is a product of
  \<open>int\<close>, taken here without overflow.
\<close>

definition process_delta :: "arith \<Rightarrow> Image \<Rightarrow> float" where
  "process_delta a img = fdiv a (Fin 1) (float_of_int a (size_x img * size_y img))"

definition process ::
  "arith \<Rightarrow> LogarithmicOperator \<Rightarrow> Image \<Rightarrow> nat \<Rightarrow> float \<Rightarrow> World \<Rightarrow> (error + unit) \<times> World" where
  "process a this img dst exposure w =
     (let w = w\<lparr>progress := Fin 0\<rparr>;
          delta = process_delta a img
      in case at_key (parameters this) ''Gamma'' of Inl e \<Rightarrow> (Inl e, w) | Inr gamma \<Rightarrow>
         (case at_key (parameters this) ''Lmax'' of Inl e \<Rightarrow> (Inl e, w) | Inr Lmax \<Rightarrow>
         (case at_key (parameters this) ''p'' of Inl e \<Rightarrow> (Inl e, w) | Inr p \<Rightarrow>
         (case at_key (parameters this) ''q'' of Inl e \<Rightarrow> (Inl e, w) | Inr q \<Rightarrow>
            (Inr (),
             snd (for_loop 0 (size_y img)
                    (\<lambda>i. for_loop 0 (size_x img)
                       (process_pixel a img exposure delta (value_of gamma) (value_of Lmax)
                          (value_of p) (value_of q) i))
                    (dst, w)))))))"

subsection \<open>graph\<close>

definition graph :: "arith \<Rightarrow> LogarithmicOperator \<Rightarrow> float \<Rightarrow> error + float" where
  "graph a this v =
     (case at_key (parameters this) ''Gamma'' of Inl e \<Rightarrow> Inl e | Inr gamma \<Rightarrow>
     (case at_key (parameters this) ''Lmax'' of Inl e \<Rightarrow> Inl e | Inr Lmax \<Rightarrow>
     (case at_key (parameters this) ''p'' of Inl e \<Rightarrow> Inl e | Inr p \<Rightarrow>
     (case at_key (parameters this) ''q'' of Inl e \<Rightarrow> Inl e | Inr q \<Rightarrow>
        (let v = map_Ld a v (Fin 1) (value_of Lmax) (value_of p) (value_of q);
             v = clamp v (Fin 0) (Fin 1);
             v = fpow a v (fdiv a (Fin 1) (value_of gamma))
         in Inr v)))))"

section \<open>The fragment shader\<close>

text \<open>
  The functions of the fragment shader source, line by line, on the same values. A
  \<open>vec4\<close> has the four components \<open>r\<close>, \<open>g\<close>, \<open>b\<close>, \<open>a\<close>; the built-in functions
  \<open>min\<close>, \<open>max\<close> and \<open>clamp\<close> are those of the shading language:
  \<open>clamp(x, lo, hi) = min(max(x, lo), hi)\<close>. The texel read by
  \<open>texture(source, uv)\<close> and the uniforms are arguments.
\<close>

datatype vec4 = vec4 (r4: float) (g4: float) (b4: float) (a4: float)

definition glsl_min :: "float \<Rightarrow> float \<Rightarrow> float" where
  "glsl_min x y = (if fless y x then y else x)"

definition glsl_max :: "float \<Rightarrow> float \<Rightarrow> float" where
  "glsl_max x y = (if fless x y then y else x)"

definition glsl_clamp :: "float \<Rightarrow> float \<Rightarrow> float \<Rightarrow> float" where
  "glsl_clamp x lo hi = glsl_min (glsl_max x lo) hi"

definition shader_clampedValue :: "vec4 \<Rightarrow> vec4" where
  "shader_clampedValue color =
     (let color = vec4 (r4 color) (g4 color) (b4 color) (Fin 1)
      in vec4 (glsl_clamp (r4 color) (Fin 0) (Fin 1)) (glsl_clamp (g4 color) (Fin 0) (Fin 1))
           (glsl_clamp (b4 color) (Fin 0) (Fin 1)) (glsl_clamp (a4 color) (Fin 0) (Fin 1)))"

definition shader_gammaCorrect :: "arith \<Rightarrow> float \<Rightarrow> vec4 \<Rightarrow> vec4" where
  "shader_gammaCorrect a gamma color =
     (let e = fdiv a (Fin 1) gamma
      in vec4 (fpow a (r4 color) e) (fpow a (g4 color) e) (fpow a (b4 color) e)
           (fpow a (a4 color) e))"

definition shader_getLuminance :: "arith \<Rightarrow> vec4 \<Rightarrow> float" where
  "shader_getLuminance a color =
     fadd a
       (fadd a (fmul a (float_lit a 0.212671) (r4 color))
          (fmul a (float_lit a 0.71516) (g4 color)))
       (fmul a (float_lit a 0.072169) (b4 color))"

definition shader_adjustColor :: "arith \<Rightarrow> vec4 \<Rightarrow> float \<Rightarrow> float \<Rightarrow> vec4" where
  "shader_adjustColor a color L Ld =
     vec4 (fdiv a (fmul a Ld (r4 color)) L) (fdiv a (fmul a Ld (g4 color)) L)
       (fdiv a (fmul a Ld (b4 color)) L) (fdiv a (fmul a Ld (a4 color)) L)"

definition shader_main ::
  "arith \<Rightarrow> vec4 \<Rightarrow> float \<Rightarrow> float \<Rightarrow> float \<Rightarrow> float \<Rightarrow> float \<Rightarrow> vec4" where
  "shader_main a texel exposure gamma Lmax p q =
     (let color = vec4 (fmul a exposure (r4 texel)) (fmul a exposure (g4 texel))
                    (fmul a exposure (b4 texel)) (fmul a exposure (a4 texel));
          L = shader_getLuminance a color;
          Ld = fdiv a
                 (fdiv a (flog a (fadd a (Fin 1) (fmul a p L))) (flog a (Fin 10)))
                 (fdiv a (flog a (fadd a (Fin 1) (fmul a (fmul a q exposure) Lmax)))
                    (flog a (Fin 10)));
          color = shader_adjustColor a color L Ld;
          color = shader_clampedValue color;
          out_color = shader_gammaCorrect a gamma color
      in out_color)"

section \<open>Auxiliary definitions\<close>

text \<open>
  Byte \<open>k\<close> (0, 1 or 2) that the loop body stores for the pixel in row \<open>i\<close> and column
  \<open>j\<close>, and the invariants of the inner and of the outer loop of \<open>process\<close>: where the
  pointer stands, how often the progress value was incremented, which bytes are written
  and that every other address is as it was.
\<close>

definition pixel_byte ::
  "arith \<Rightarrow> Image \<Rightarrow> float \<Rightarrow> float \<Rightarrow> float \<Rightarrow> float \<Rightarrow> float \<Rightarrow> int \<Rightarrow> int \<Rightarrow> nat \<Rightarrow> 8 word" where
  "pixel_byte a img exposure gamma Lmax p q i j k =
     (let c = process_color a exposure gamma Lmax p q (ref img i j)
      in to_uint8 (fmul a (Fin 255) (if k = 0 then r c else if k = 1 then g c else b c)))"

definition row_inv ::
  "(float \<Rightarrow> float) \<Rightarrow> (int \<Rightarrow> nat \<Rightarrow> 8 word) \<Rightarrow> nat \<Rightarrow> World \<Rightarrow> int \<Rightarrow> nat \<times> World \<Rightarrow> bool" where
  "row_inv f B d0 w0 j s =
     (fst s = d0 + 3 * nat j \<and>
      progress (snd s) = (f ^^ nat j) (progress w0) \<and>
      (\<forall>j' k. 0 \<le> j' \<and> j' < j \<and> k < 3 \<longrightarrow> mem (snd s) (d0 + 3 * nat j' + k) = B j' k) \<and>
      (\<forall>addr. addr < d0 \<or> d0 + 3 * nat j \<le> addr \<longrightarrow> mem (snd s) addr = mem w0 addr))"

definition image_inv ::
  "(float \<Rightarrow> float) \<Rightarrow> (int \<Rightarrow> int \<Rightarrow> nat \<Rightarrow> 8 word) \<Rightarrow> nat \<Rightarrow> nat \<Rightarrow> World \<Rightarrow> int \<Rightarrow>
   nat \<times> World \<Rightarrow> bool" where
  "image_inv f B W d0 w0 i s =
     (fst s = d0 + 3 * (nat i * W) \<and>
      progress (snd s) = (f ^^ (nat i * W)) (progress w0) \<and>
      (\<forall>i' j k. 0 \<le> i' \<and> i' < i \<and> 0 \<le> j \<and> nat j < W \<and> k < 3 \<longrightarrow>
         mem (snd s) (d0 + 3 * (nat i' * W + nat j) + k) = B i' j k) \<and>
      (\<forall>addr. addr < d0 \<or> d0 + 3 * (nat i * W) \<le> addr \<longrightarrow> mem (snd s) addr = mem w0 addr))"

text \<open>The four parameters that \<open>process\<close> and \<open>graph\<close> read are present.\<close>

definition has_parameters ::
  "LogarithmicOperator \<Rightarrow> Parameter \<Rightarrow> Parameter \<Rightarrow> Parameter \<Rightarrow> Parameter \<Rightarrow> bool" where
  "has_parameters this gamma Lmax p q =
     (parameters this ''Gamma'' = Some gamma \<and> parameters this ''Lmax'' = Some Lmax \<and>
      parameters this ''p'' = Some p \<and> parameters this ''q'' = Some q)"

text \<open>
  Concrete inputs: the image of two pixels \<open>(1, 1, 1)\<close> and \<open>(2, 2, 2)\<close> in one row,
  with maximum luminance 2; an image without pixels; an image of 8192 by 4096 pixels; and
  a caller's side with zeroed memory and progress one half.
\<close>

definition two_pixels :: Image where
  "two_pixels =
     \<lparr>size_x = 2, size_y = 1,
      ref = (\<lambda>i j. if j = 0 then Color3f (Fin 1) (Fin 1) (Fin 1) else Color3f (Fin 2) (Fin 2) (Fin 2)),
      getMaximumLuminance = Fin 2\<rparr>"

definition no_pixels :: Image where
  "no_pixels =
     \<lparr>size_x = 0, size_y = 3,
      ref = (\<lambda>i j. Color3f (Fin 1) (Fin 1) (Fin 1)),
      getMaximumLuminance = Fin 1\<rparr>"

definition large_image :: Image where
  "large_image =
     \<lparr>size_x = 8192, size_y = 4096,
      ref = (\<lambda>i j. Color3f (Fin 1) (Fin 1) (Fin 1)),
      getMaximumLuminance = Fin 1\<rparr>"

definition zeroed :: World where
  "zeroed = \<lparr>mem = (\<lambda>addr. 0), progress = Fin (1 / 2)\<rparr>"

section \<open>Rounding\<close>

text \<open>
  Zero and the numbers with at most 24 significant bits are not changed by rounding;
  one half plus \<open>2 ^ -25\<close> lies halfway between two binary32 numbers.
\<close>

lemma rnd_0 [simp]: "rnd a 0 = Fin 0"
  by (cases a) (simp_all add: round32_def)

lemma round_half_even_of_int [simp]: "round_half_even (of_int n) = n"
  by (simp add: round_half_even_def)

lemma floor_log2_eq:
  assumes "2 powi e \<le> x" "x < 2 powi (e + 1)"
  shows "\<lfloor>log 2 x\<rfloor> = e"
proof -
  have pos: "0 < x" using assms(1) zero_less_power_int [of "2::real" e] by linarith
  have "(2::real) powr real_of_int e = 2 powi e"
    by (rule powr_real_of_int') simp_all
  moreover have "(2::real) powr (real_of_int e + 1) = 2 powi (e + 1)"
    using powr_real_of_int' [of "2::real" "e + 1"] by simp
  ultimately show ?thesis
    using assms pos by (simp add: floor_log_eq_powr_iff)
qed

lemma floor_log2_less:
  assumes "0 < x" "x < 2 powi e"
  shows "\<lfloor>log 2 x\<rfloor> < e"
proof -
  have "(2::real) powr real_of_int e = 2 powi e"
    by (rule powr_real_of_int') simp_all
  then have "log 2 x < real_of_int e"
    using assms by (simp add: log_less_iff)
  then show ?thesis by linarith
qed

lemma round32_representable:
  assumes x: "x = of_int n * 2 powi k" and n: "0 < n" "n < 2 ^ 24" and k: "- 149 \<le> k" "k \<le> 104"
  shows "round32 x = Fin x"
proof -
  define e where "e = max \<lfloor>log 2 \<bar>x\<bar>\<rfloor> (- 126)"
  have xpos: "0 < x" using x n by simp
  have "x < 2 ^ 24 * 2 powi k"
    using n x by (simp add: of_int_less_numeral_power_cancel_iff [symmetric] del: of_int_less_numeral_power_cancel_iff)
  also have "\<dots> = 2 powi (k + 24)"
    by (simp add: power_int_add)
  finally have xlt: "x < 2 powi (k + 24)" .
  then have "\<lfloor>log 2 x\<rfloor> < k + 24"
    using xpos by (rule floor_log2_less [rotated])
  then have e: "e \<le> k + 23" using k xpos by (simp add: e_def)
  define d where "d = nat (k + 23 - e)"
  have d: "k = (e - 23) + int d" using e by (simp add: d_def)
  have pk: "(2::real) powi k = 2 powi (e - 23) * 2 ^ d"
    by (subst d) (simp add: power_int_add)
  have quot: "x / 2 powi (e - 23) = of_int (n * 2 ^ d)"
    unfolding x pk by simp
  have bk: "of_int (n * 2 ^ d) * 2 powi (e - 23) = x"
    unfolding x pk by simp
  have "x < 2 powi 128"
    using xlt k power_int_increasing [of "k + 24" 128 "2::real"] by simp
  then have small: "\<not> 2 ^ 128 \<le> \<bar>x\<bar>" using xpos by simp
  show ?thesis
    using xpos small
    unfolding round32_def Let_def e_def [symmetric] quot round_half_even_of_int bk
    by simp
qed

lemma round32_1: "round32 1 = Fin 1"
  using round32_representable [of 1 1 0] by simp

lemma rnd_1 [simp]: "rnd a 1 = Fin 1"
  by (cases a) (simp_all add: round32_1)

lemma round32_tie_half: "round32 (1 / 2 + 1 / 2 ^ 25) = Fin (1 / 2)"
proof -
  have fl: "\<lfloor>log 2 \<bar>1 / 2 + 1 / 2 ^ 25 :: real\<bar>\<rfloor> = - 1"
    by (rule floor_log2_eq) (simp_all add: power_int_minus)
  have rh: "round_half_even (16777217 / 2) = 8388608"
    by (simp add: round_half_even_def Let_def)
  show ?thesis
    unfolding round32_def Let_def fl
    by (simp add: rh)
qed

text \<open>
  Two known binary32 values: the number nearest to one third, and the literal \<open>2.2f\<close>.
\<close>

lemma round32_one_third: "round32 (1 / 3) = Fin (11184811 / 33554432)"
proof -
  have fl: "\<lfloor>log 2 \<bar>1 / 3 :: real\<bar>\<rfloor> = - 2"
    by (rule floor_log2_eq) (simp_all add: power_int_minus)
  have rh: "round_half_even (33554432 / 3) = 11184811"
    by (simp add: round_half_even_def Let_def)
  show ?thesis
    unfolding round32_def Let_def fl
    by (simp add: rh power_int_minus)
qed

lemma float_lit_gamma: "float_lit Binary32 2.2 = Fin (9227469 / 4194304)"
proof -
  have fl: "\<lfloor>log 2 \<bar>22 / 10 :: real\<bar>\<rfloor> = 1"
    by (rule floor_log2_eq) simp_all
  have rh: "round_half_even (22 / 10 * 4194304) = 9227469"
    by (simp add: round_half_even_def Let_def)
  have "round32 (22 / 10) = Fin (9227469 / 4194304)"
    unfolding round32_def Let_def fl
    using rh by (simp add: power_int_minus)
  then show ?thesis by (simp add: float_lit_def)
qed

section \<open>Special values\<close>

lemma fadd_NaN_right [simp]: "fadd a x NaN = NaN"
  by (cases x) simp_all

lemma fmul_NaN_right [simp]: "fmul a x NaN = NaN"
  by (cases x) simp_all

lemma fdiv_NaN_right [simp]: "fdiv a x NaN = NaN"
  by (cases x) simp_all

lemma fdiv_zero: "fdiv a x (Fin 0) \<in> {PInf, NInf, NaN}"
  by (cases x) (simp_all add: signed_inf_def)

lemma fpow_one: "fpow a (Fin 1) y = Fin 1"
  by (simp add: fpow_def)

lemma log_10_3: "log 10 3 \<noteq> (0::real)"
  by (simp add: log_def)

section \<open>Iteration over the pixels\<close>

lemma for_loop_stop: "hi \<le> k \<Longrightarrow> for_loop k hi body s = s"
  by (simp add: for_loop.simps)

lemma for_loop_step: "k < hi \<Longrightarrow> for_loop k hi body s = for_loop (k + 1) hi body (body k s)"
  by (subst for_loop.simps) simp

lemma for_loop_rule:
  assumes "P k s" and "k \<le> hi"
    and "\<And>i t. k \<le> i \<Longrightarrow> i < hi \<Longrightarrow> P i t \<Longrightarrow> P (i + 1) (body i t)"
  shows "P hi (for_loop k hi body s)"
  using assms
proof (induction k hi body s rule: for_loop.induct)
  case (1 k hi body s)
  show ?case
  proof (cases "k < hi")
    case True
    have "P (k + 1) (body k s)"
      using "1.prems" True by simp
    moreover have "\<And>i t. k + 1 \<le> i \<Longrightarrow> i < hi \<Longrightarrow> P i t \<Longrightarrow> P (i + 1) (body i t)"
      using "1.prems"(3) by simp
    ultimately have "P hi (for_loop (k + 1) hi body (body k s))"
      using True by (intro "1.IH") simp_all
    then show ?thesis
      using True by (simp add: for_loop_step)
  next
    case False
    then have "hi = k" using "1.prems"(2) by simp
    then show ?thesis using "1.prems"(1) by (simp add: for_loop_stop)
  qed
qed

lemma row_inv_step:
  assumes "row_inv (\<lambda>x. fadd a x delta) (pixel_byte a img exposure gamma Lmax p q i) d0 w0 j t" and "0 \<le> j"
  shows "row_inv (\<lambda>x. fadd a x delta) (pixel_byte a img exposure gamma Lmax p q i) d0 w0 (j + 1)
           (process_pixel a img exposure delta gamma Lmax p q i j t)"
proof -
  obtain d w where t: "t = (d, w)" by (cases t)
  have d: "d = d0 + 3 * nat j" using assms(1) by (simp add: row_inv_def t)
  have nj: "nat (j + 1) = Suc (nat j)" using assms(2) by simp
  have old: "nat j' < nat j" if "0 \<le> j'" "j' < j" for j' using that by simp
  show ?thesis
    unfolding row_inv_def process_pixel_def t Let_def nj
  proof (intro conjI allI impI, goal_cases)
    case 1
    show ?case using d by simp
  next
    case 2
    show ?case using assms(1) by (simp add: row_inv_def t)
  next
    case (3 j' k)
    show ?case
    proof (cases "j' = j")
      case True
      have "k = 0 \<or> k = 1 \<or> k = 2" using 3 by arith
      then show ?thesis using True d by (auto simp: pixel_byte_def Let_def)
    next
      case False
      then have "nat j' < nat j" using 3 by simp
      then have "d0 + 3 * nat j' + k < d" using 3 d by arith
      moreover have "mem w (d0 + 3 * nat j' + k) = pixel_byte a img exposure gamma Lmax p q i j' k"
        using assms(1) 3 False by (simp add: row_inv_def t)
      ultimately show ?thesis by simp
    qed
  next
    case (4 addr)
    then have "addr < d \<or> d + 3 \<le> addr" using d by auto
    moreover have "mem w addr = mem w0 addr"
      using assms(1) 4 d by (auto simp: row_inv_def t)
    ultimately show ?case by auto
  qed
qed

lemma process_row:
  "row_inv (\<lambda>x. fadd a x delta) (pixel_byte a img exposure gamma Lmax p q i) d0 w0 (size_x img)
     (for_loop 0 (size_x img) (process_pixel a img exposure delta gamma Lmax p q i) (d0, w0))"
proof (cases "0 \<le> size_x img")
  case True
  let ?P = "row_inv (\<lambda>x. fadd a x delta) (pixel_byte a img exposure gamma Lmax p q i) d0 w0"
  show ?thesis
  proof (rule for_loop_rule [where P = ?P])
    show "?P 0 (d0, w0)" by (auto simp: row_inv_def)
    show "0 \<le> size_x img" by (rule True)
    show "?P (j + 1) (process_pixel a img exposure delta gamma Lmax p q i j t)"
      if "0 \<le> j" "?P j t" for j t
      using that(2) that(1) by (rule row_inv_step)
  qed
next
  case False
  then show ?thesis by (auto simp: for_loop_stop row_inv_def)
qed

lemma offset_bound: "A + W \<le> C \<Longrightarrow> j < W \<Longrightarrow> k < 3 \<Longrightarrow> 3 * (A + j) + k < 3 * (C::nat)"
  by arith

lemma image_inv_step:
  assumes inv: "image_inv (\<lambda>x. fadd a x delta) (pixel_byte a img exposure gamma Lmax p q)
             (nat (size_x img)) d0 w0 i t" and i: "0 \<le> i"
  shows "image_inv (\<lambda>x. fadd a x delta) (pixel_byte a img exposure gamma Lmax p q)
           (nat (size_x img)) d0 w0 (i + 1)
           (for_loop 0 (size_x img) (process_pixel a img exposure delta gamma Lmax p q i) t)"
proof -
  let ?W = "nat (size_x img)"
  let ?f = "\<lambda>x. fadd a x delta"
  obtain d w where t: "t = (d, w)" by (cases t)
  define s where "s = for_loop 0 (size_x img) (process_pixel a img exposure delta gamma Lmax p q i) (d, w)"
  have row: "row_inv ?f (pixel_byte a img exposure gamma Lmax p q i) d w (size_x img) s"
    unfolding s_def by (rule process_row)
  have d: "d = d0 + 3 * (nat i * ?W)" using inv by (simp add: image_inv_def t)
  have ni: "nat (i + 1) * ?W = nat i * ?W + ?W" using i by (simp add: nat_add_distrib)
  show ?thesis
    unfolding t s_def [symmetric] image_inv_def ni
  proof (intro conjI allI impI, goal_cases)
    case 1
    show ?case using row d by (simp add: row_inv_def)
  next
    case 2
    have "progress (snd s) = (?f ^^ ?W) (progress w)" using row by (simp add: row_inv_def)
    also have "progress w = (?f ^^ (nat i * ?W)) (progress w0)"
      using inv by (simp add: image_inv_def t)
    finally show ?case by (simp add: funpow_add add.commute)
  next
    case (3 i' j k)
    show ?case
    proof (cases "i' = i")
      case True
      have "mem (snd s) (d + 3 * nat j + k) = pixel_byte a img exposure gamma Lmax p q i j k"
        using row 3 by (simp add: row_inv_def)
      then show ?thesis using True d by (simp add: algebra_simps)
    next
      case False
      then have "Suc (nat i') \<le> nat i" using 3 by arith
      then have "Suc (nat i') * ?W \<le> nat i * ?W" by (rule mult_le_mono1)
      then have le: "nat i' * ?W + ?W \<le> nat i * ?W" by simp
      have "nat j < ?W" "k < 3" using 3 by simp_all
      with le have "3 * (nat i' * ?W + nat j) + k < 3 * (nat i * ?W)" by (rule offset_bound)
      then have "d0 + 3 * (nat i' * ?W + nat j) + k < d" unfolding d by linarith
      then have "mem (snd s) (d0 + 3 * (nat i' * ?W + nat j) + k) = mem w (d0 + 3 * (nat i' * ?W + nat j) + k)"
        using row by (simp add: row_inv_def)
      also have "\<dots> = pixel_byte a img exposure gamma Lmax p q i' j k"
        using inv 3 False by (simp add: image_inv_def t)
      finally show ?thesis .
    qed
  next
    case (4 addr)
    then have "addr < d \<or> d + 3 * ?W \<le> addr" using d by auto
    then have "mem (snd s) addr = mem w addr" using row by (auto simp: row_inv_def)
    also have "\<dots> = mem w0 addr" using inv 4 by (auto simp: image_inv_def t)
    finally show ?case .
  qed
qed

lemma process_image:
  "image_inv (\<lambda>x. fadd a x delta) (pixel_byte a img exposure gamma Lmax p q)
     (nat (size_x img)) d0 w0 (size_y img)
     (for_loop 0 (size_y img)
        (\<lambda>i. for_loop 0 (size_x img) (process_pixel a img exposure delta gamma Lmax p q i)) (d0, w0))"
proof (cases "0 \<le> size_y img")
  case True
  let ?P = "image_inv (\<lambda>x. fadd a x delta) (pixel_byte a img exposure gamma Lmax p q)
     (nat (size_x img)) d0 w0"
  show ?thesis
  proof (rule for_loop_rule [where P = ?P])
    show "?P 0 (d0, w0)" by (auto simp: image_inv_def)
    show "0 \<le> size_y img" by (rule True)
    show "?P (i + 1) (for_loop 0 (size_x img) (process_pixel a img exposure delta gamma Lmax p q i) t)"
      if "0 \<le> i" "?P i t" for i t
      using that(2) that(1) by (rule image_inv_step)
  qed
next
  case False
  then show ?thesis by (auto simp: for_loop_stop image_inv_def)
qed

section \<open>Parameters\<close>

lemma parameters_new:
  "parameters (LogarithmicOperator a) =
     [''Gamma'' \<mapsto> Parameter (float_lit a 2.2) (Fin 0) (Fin 10) ''gamma'' ''Gamma correction value'',
      ''p'' \<mapsto> Parameter (Fin 1) (Fin 0) (Fin 20) ''p'' ''Exponent numerator scale factor'',
      ''q'' \<mapsto> Parameter (Fin 1) (Fin 0) (Fin 20) ''q'' ''Exponent denominator scale factor'']"
  by (simp add: LogarithmicOperator_def TonemapOperator_def Let_def)

lemma has_parameters_setParameters:
  "has_parameters (setParameters (LogarithmicOperator a) img)
     (Parameter (float_lit a 2.2) (Fin 0) (Fin 10) ''gamma'' ''Gamma correction value'')
     (ParameterConst (getMaximumLuminance img) ''Lmax'')
     (Parameter (Fin 1) (Fin 0) (Fin 20) ''p'' ''Exponent numerator scale factor'')
     (Parameter (Fin 1) (Fin 0) (Fin 20) ''q'' ''Exponent denominator scale factor'')"
  by (simp add: has_parameters_def setParameters_def parameters_new)

lemma process_has_parameters:
  assumes "has_parameters this gamma Lmax p q"
  shows "process a this img dst exposure w =
     (Inr (),
      snd (for_loop 0 (size_y img)
             (\<lambda>i. for_loop 0 (size_x img)
                (process_pixel a img exposure (process_delta a img) (value_of gamma)
                   (value_of Lmax) (value_of p) (value_of q) i))
             (dst, w\<lparr>progress := Fin 0\<rparr>)))"
  using assms by (simp add: process_def has_parameters_def at_key_def Let_def)

lemma graph_has_parameters:
  assumes "has_parameters this gamma Lmax p q"
  shows "graph a this v =
     Inr (fpow a (clamp (map_Ld a v (Fin 1) (value_of Lmax) (value_of p) (value_of q)) (Fin 0) (Fin 1))
            (fdiv a (Fin 1) (value_of gamma)))"
  using assms by (simp add: graph_def has_parameters_def at_key_def Let_def)

section \<open>The effect of process\<close>

lemma World_eqI: "mem w = mem w' \<Longrightarrow> progress w = progress w' \<Longrightarrow> w = (w' :: World)"
  by simp

lemma process_post:
  assumes "has_parameters this gamma Lmax p q"
  shows "fst (process a this img dst exposure w) = Inr () \<and>
    image_inv (\<lambda>x. fadd a x (process_delta a img))
      (pixel_byte a img exposure (value_of gamma) (value_of Lmax) (value_of p) (value_of q))
      (nat (size_x img)) dst (w\<lparr>progress := Fin 0\<rparr>) (size_y img)
      (dst + 3 * (nat (size_y img) * nat (size_x img)), snd (process a this img dst exposure w))"
proof -
  let ?s = "for_loop 0 (size_y img)
             (\<lambda>i. for_loop 0 (size_x img)
                (process_pixel a img exposure (process_delta a img) (value_of gamma)
                   (value_of Lmax) (value_of p) (value_of q) i))
             (dst, w\<lparr>progress := Fin 0\<rparr>)"
  have inv: "image_inv (\<lambda>x. fadd a x (process_delta a img))
      (pixel_byte a img exposure (value_of gamma) (value_of Lmax) (value_of p) (value_of q))
      (nat (size_x img)) dst (w\<lparr>progress := Fin 0\<rparr>) (size_y img) ?s"
    by (rule process_image)
  then have "fst ?s = dst + 3 * (nat (size_y img) * nat (size_x img))"
    by (simp add: image_inv_def)
  then have "?s = (dst + 3 * (nat (size_y img) * nat (size_x img)), snd ?s)"
    by (metis prod.collapse)
  with inv show ?thesis
    by (simp add: process_has_parameters [OF assms])
qed

lemma process_progress:
  assumes "has_parameters this gamma Lmax p q"
  shows "progress (snd (process a this img dst exposure w)) =
     ((\<lambda>x. fadd a x (process_delta a img)) ^^ (nat (size_y img) * nat (size_x img))) (Fin 0)"
  using process_post [OF assms, of a img dst exposure w] by (simp add: image_inv_def)

lemma process_frame:
  assumes "has_parameters this gamma Lmax p q"
    and "addr < dst \<or> dst + 3 * (nat (size_y img) * nat (size_x img)) \<le> addr"
  shows "mem (snd (process a this img dst exposure w)) addr = mem w addr"
  using process_post [OF assms(1), of a img dst exposure w] assms(2) by (auto simp: image_inv_def)

lemma process_byte:
  assumes "has_parameters this gamma Lmax p q"
    and "0 \<le> i" "i < size_y img" "0 \<le> j" "j < size_x img" "k < 3"
  shows "mem (snd (process a this img dst exposure w)) (dst + 3 * (nat i * nat (size_x img) + nat j) + k) =
     pixel_byte a img exposure (value_of gamma) (value_of Lmax) (value_of p) (value_of q) i j k"
proof -
  have "nat j < nat (size_x img)" using assms by simp
  then show ?thesis
    using process_post [OF assms(1), of a img dst exposure w] assms(2-6)
    unfolding image_inv_def snd_conv by blast
qed

section \<open>The core formula\<close>

text \<open>
  Claim C1. For every \<open>Lw\<close>, \<open>exposure\<close>, \<open>Lmax\<close>, \<open>p\<close> and \<open>q\<close>, \<open>map\<close> returns
  \<open>log10(1 + p (exposure Lw)) / log10(1 + q exposure Lmax)\<close>: it forms
  \<open>L = exposure Lw\<close> first and then the quotient of the two base-10 logarithms, in either
  arithmetic. The result is not clamped: in exact arithmetic \<open>map(9, 1, 1, 1, 1)\<close> is
  \<open>1 / log10 2\<close>, which is greater than 1.
\<close>

theorem map_formula:
  "map_Ld a Lw exposure Lmax p q =
     fdiv a (flog10 a (fadd a (Fin 1) (fmul a p (fmul a exposure Lw))))
       (flog10 a (fadd a (Fin 1) (fmul a (fmul a q exposure) Lmax))) \<and>
   map_Ld Exact (Fin 9) (Fin 1) (Fin 1) (Fin 1) (Fin 1) = Fin (1 / log 10 2) \<and>
   fless (Fin 1) (map_Ld Exact (Fin 9) (Fin 1) (Fin 1) (Fin 1) (Fin 1))"
proof -
  have "log 10 2 \<noteq> (0::real)" by (simp add: log_def)
  then show ?thesis by (simp add: map_Ld_def)
qed

text \<open>
  Claim C5. If \<open>q * exposure * Lmax\<close> is 0, the denominator
  \<open>log10(1 + q * exposure * Lmax)\<close> of \<open>map\<close> is \<open>log10(1) = 0\<close>, and \<open>map\<close> divides by
  it: the value of \<open>map\<close> is the quotient of its numerator \<open>log10(1 + p (exposure Lw))\<close>
  by 0, for every \<open>Lw\<close> and \<open>p\<close>, and that quotient is NaN for the numerator 0, minus
  infinity for a negative and plus infinity for a positive one; so the result is plus or
  minus infinity or NaN. In particular, with \<open>Lmax\<close> 0 and a finite product \<open>q * exposure\<close>
  the value is that quotient by 0, and with \<open>Lmax\<close> 0 the result is an infinity or NaN
  in every case. \<open>map\<close> raises no error and substitutes no default.
\<close>

theorem map_division_by_zero:
  assumes "fmul a (fmul a q exposure) Lmax = Fin 0"
  shows "flog10 a (fadd a (Fin 1) (fmul a (fmul a q exposure) Lmax)) = Fin 0 \<and>
     map_Ld a Lw exposure Lmax p q =
       fdiv a (flog10 a (fadd a (Fin 1) (fmul a p (fmul a exposure Lw)))) (Fin 0) \<and>
     (\<forall>x. fdiv a (Fin x) (Fin 0) = (if x = 0 then NaN else if x < 0 then NInf else PInf)) \<and>
     map_Ld a Lw exposure Lmax p q \<in> {PInf, NInf, NaN} \<and>
     (\<forall>x. fmul a q exposure = Fin x \<longrightarrow>
        map_Ld a Lw exposure (Fin 0) p q =
          fdiv a (flog10 a (fadd a (Fin 1) (fmul a p (fmul a exposure Lw)))) (Fin 0)) \<and>
     map_Ld a Lw exposure (Fin 0) p q \<in> {PInf, NInf, NaN}"
proof -
  let ?num = "flog10 a (fadd a (Fin 1) (fmul a p (fmul a exposure Lw)))"
  have den: "flog10 a (fadd a (Fin 1) (fmul a (fmul a q exposure) Lmax)) = Fin 0"
    by (simp add: assms)
  have eq: "map_Ld a Lw exposure Lmax p q = fdiv a ?num (Fin 0)"
    by (simp add: map_Ld_def assms)
  have zero: "map_Ld a Lw exposure (Fin 0) p q = fdiv a ?num (Fin 0)"
    if "fmul a q exposure = Fin x" for x
    using that by (simp add: map_Ld_def)
  have "map_Ld a Lw exposure (Fin 0) p q \<in> {PInf, NInf, NaN}"
  proof (cases "fmul a q exposure")
    case (Fin x)
    then show ?thesis
      using fdiv_zero [of a ?num] by (simp add: zero)
  qed (simp_all add: map_Ld_def)
  moreover have "map_Ld a Lw exposure Lmax p q \<in> {PInf, NInf, NaN}"
    unfolding eq by (rule fdiv_zero)
  moreover have "\<forall>x. fdiv a (Fin x) (Fin 0) = (if x = 0 then NaN else if x < 0 then NInf else PInf)"
    by (simp add: signed_inf_def)
  ultimately show ?thesis
    using den eq zero by simp
qed

text \<open>
  An instance: \<open>map(9, 1, 0, 1, 1)\<close> divides \<open>log10(10) = 1\<close> by 0, which is plus
  infinity.
\<close>

theorem map_division_by_zero_witness:
  "fmul Exact (fmul Exact (Fin 1) (Fin 1)) (Fin 0) = Fin 0 \<and>
   fmul Exact (Fin 1) (Fin 1) = Fin 1 \<and>
   flog10 Exact (fadd Exact (Fin 1) (fmul Exact (Fin 1) (fmul Exact (Fin 1) (Fin 9)))) = Fin 1 \<and>
   map_Ld Exact (Fin 9) (Fin 1) (Fin 0) (Fin 1) (Fin 1) = fdiv Exact (Fin 1) (Fin 0) \<and>
   map_Ld Exact (Fin 9) (Fin 1) (Fin 0) (Fin 1) (Fin 1) = PInf"
proof -
  have num: "flog10 Exact (fadd Exact (Fin 1) (fmul Exact (Fin 1) (fmul Exact (Fin 1) (Fin 9)))) = Fin 1"
    by simp
  have hyp: "fmul Exact (fmul Exact (Fin 1) (Fin 1)) (Fin 0) = Fin 0"
    by simp
  show ?thesis
    using map_division_by_zero [OF hyp, of "Fin 9" "Fin 1"] num hyp
    by (simp add: signed_inf_def)
qed

section \<open>Construction and setParameters\<close>

text \<open>
  Claim C9. The mapping of a newly constructed operator has exactly the keys \<open>"Gamma"\<close>,
  \<open>"p"\<close> and \<open>"q"\<close>: \<open>"Gamma"\<close> is user-adjustable with value 2.2 (the literal \<open>2.2f\<close>:
  22/10 in exact arithmetic, 9227469/4194304 in binary32) and
  range \<open>[0, 10]\<close>, \<open>"p"\<close> and \<open>"q"\<close> are user-adjustable with value 1 and range \<open>[0, 20]\<close>,
  and there is no entry under \<open>"Lmax"\<close>. The name is \<open>"Logarithmic"\<close> and the description
  is the citation, which is not empty. The constructor is a total function that returns
  an operator: it has no failure.
\<close>

theorem new_operator:
  "dom (parameters (LogarithmicOperator a)) = {''Gamma'', ''p'', ''q''} \<and>
   parameters (LogarithmicOperator a) ''Gamma'' =
     Some (Parameter (float_lit a 2.2) (Fin 0) (Fin 10) ''gamma'' ''Gamma correction value'') \<and>
   parameters (LogarithmicOperator a) ''p'' =
     Some (Parameter (Fin 1) (Fin 0) (Fin 20) ''p'' ''Exponent numerator scale factor'') \<and>
   parameters (LogarithmicOperator a) ''q'' =
     Some (Parameter (Fin 1) (Fin 0) (Fin 20) ''q'' ''Exponent denominator scale factor'') \<and>
   parameters (LogarithmicOperator a) ''Lmax'' = None \<and>
   float_lit Exact 2.2 = Fin (22 / 10) \<and>
   float_lit Binary32 2.2 = Fin (9227469 / 4194304) \<and>
   name (LogarithmicOperator a) = ''Logarithmic'' \<and>
   description (LogarithmicOperator a) = citation \<and>
   citation \<noteq> []"
proof -
  have "dom (parameters (LogarithmicOperator a)) = {''Gamma'', ''p'', ''q''}"
    by (auto simp: parameters_new)
  moreover have "float_lit Exact 2.2 = Fin (22 / 10)"
    by (simp add: float_lit_def)
  moreover have "name (LogarithmicOperator a) = ''Logarithmic''"
    "description (LogarithmicOperator a) = citation"
    by (simp_all add: LogarithmicOperator_def Let_def)
  moreover have "citation \<noteq> []"
    by (simp add: citation_def)
  ultimately show ?thesis
    using float_lit_gamma by (simp add: parameters_new)
qed

text \<open>
  Claim C8. \<open>setParameters(image)\<close> stores the image's maximum luminance as the read-only
  parameter under the key \<open>"Lmax"\<close>, replacing an earlier entry under that key, and changes
  nothing else: every other key of the mapping, so \<open>"Gamma"\<close>, \<open>"p"\<close> and \<open>"q"\<close>, and the
  name, the description and the shader are as before. The result is the operator alone:
  nothing is returned to the caller.
\<close>

theorem setParameters_frame:
  "parameters (setParameters this img) ''Lmax'' =
     Some (ParameterConst (getMaximumLuminance img) ''Lmax'') \<and>
   (\<forall>k. k \<noteq> ''Lmax'' \<longrightarrow> parameters (setParameters this img) k = parameters this k) \<and>
   setParameters (setParameters this img') img = setParameters this img \<and>
   name (setParameters this img) = name this \<and>
   description (setParameters this img) = description this \<and>
   shader (setParameters this img) = shader this"
  by (simp add: setParameters_def)

text \<open>
  An instance: the entry under \<open>"Gamma"\<close> of a new operator is unchanged.
\<close>

theorem setParameters_frame_witness:
  "''Gamma'' \<noteq> ''Lmax'' \<and>
   parameters (setParameters (LogarithmicOperator Exact) two_pixels) ''Gamma'' =
     parameters (LogarithmicOperator Exact) ''Gamma''"
  using setParameters_frame [of "LogarithmicOperator Exact" two_pixels two_pixels] by simp

text \<open>
  Claim C4 says that \<open>process\<close> on a freshly constructed operator reads \<open>"Lmax"\<close>, and
  fails, before it does anything else that can be observed. It does fail, but it has
  then already stored 0 in the caller's progress value: a progress of one half before
  the call is no longer one half after it.
\<close>

theorem missing_Lmax_counterexample:
  "fst (process Exact (LogarithmicOperator Exact) two_pixels 0 (Fin 1) zeroed) = Inl OutOfRange \<and>
   progress (snd (process Exact (LogarithmicOperator Exact) two_pixels 0 (Fin 1) zeroed)) \<noteq>
     progress zeroed"
  by (simp add: process_def at_key_def parameters_new zeroed_def Let_def)

text \<open>
  Claim C4, amended. On a freshly constructed operator the mapping has \<open>"Gamma"\<close> but
  no \<open>"Lmax"\<close>. Every call to \<open>graph\<close> fails with the missing-key failure of
  \<open>std::map::at\<close>; every call to \<open>process\<close> fails with it after setting the caller's
  progress value to 0, with the memory behind \<open>dst\<close> as it was. After one call to
  \<open>setParameters\<close>, with any image, the lookup of \<open>"Lmax"\<close> succeeds, and \<open>process\<close> and
  \<open>graph\<close> return normally.
\<close>

theorem missing_Lmax:
  "process a (LogarithmicOperator a) img dst exposure w = (Inl OutOfRange, w\<lparr>progress := Fin 0\<rparr>) \<and>
   graph a (LogarithmicOperator a) v = Inl OutOfRange \<and>
   at_key (parameters (LogarithmicOperator a)) ''Gamma'' \<noteq> Inl OutOfRange \<and>
   at_key (parameters (LogarithmicOperator a)) ''Lmax'' = Inl OutOfRange \<and>
   at_key (parameters (setParameters (LogarithmicOperator a) img')) ''Lmax'' =
     Inr (ParameterConst (getMaximumLuminance img') ''Lmax'') \<and>
   fst (process a (setParameters (LogarithmicOperator a) img') img dst exposure w) = Inr () \<and>
   (\<exists>y. graph a (setParameters (LogarithmicOperator a) img') v = Inr y)"
proof -
  note hp = has_parameters_setParameters [of a img']
  have "fst (process a (setParameters (LogarithmicOperator a) img') img dst exposure w) = Inr ()"
    using process_post [OF hp] by simp
  moreover have "\<exists>y. graph a (setParameters (LogarithmicOperator a) img') v = Inr y"
    using graph_has_parameters [OF hp] by simp
  ultimately show ?thesis
    by (simp add: process_def graph_def at_key_def parameters_new setParameters_def Let_def)
qed

section \<open>The bytes and the response curve\<close>

text \<open>
  Claim C2. With the four parameters present, \<open>process\<close> returns normally, and for the
  pixel in row \<open>i\<close> and column \<open>j\<close> of an image of width \<open>W\<close> it has written three
  consecutive bytes at \<open>dst + 3 (i W + j)\<close>, the place of the pixel in row-major order.
  The bytes are \<open>(uint8_t) (255 c)\<close> for the three channels \<open>c\<close> of the colour obtained
  from the pixel's own luminance \<open>Lw\<close> and \<open>Ld = map(Lw, exposure, Lmax, p, q)\<close> as
  \<open>Ld * color / Lw\<close>, clamped and then gamma-corrected with \<open>1 / gamma\<close>. No address
  outside the \<open>3 W H\<close> bytes from \<open>dst\<close> is changed. Clamping a finite channel puts it into
  \<open>[0, 1]\<close>, and the cast of a non-negative finite value is its integer part: truncation,
  not rounding.
\<close>

theorem process_bytes:
  assumes "has_parameters this gamma Lmax p q"
    and "0 \<le> i" "i < size_y img" "0 \<le> j" "j < size_x img"
  shows
    "(let color = ref img i j;
          Lw = getLuminance a color;
          Ld = map_Ld a Lw exposure (value_of Lmax) (value_of p) (value_of q);
          c = gammaCorrect a (clampedValue (divide_color a (scale_color a Ld color) Lw)) (value_of gamma);
          out = mem (snd (process a this img dst exposure w));
          first = dst + 3 * (nat i * nat (size_x img) + nat j)
      in fst (process a this img dst exposure w) = Inr () \<and>
         out first = to_uint8 (fmul a (Fin 255) (r c)) \<and>
         out (first + 1) = to_uint8 (fmul a (Fin 255) (g c)) \<and>
         out (first + 2) = to_uint8 (fmul a (Fin 255) (b c))) \<and>
     (\<forall>addr. addr < dst \<or> dst + 3 * (nat (size_y img) * nat (size_x img)) \<le> addr \<longrightarrow>
        mem (snd (process a this img dst exposure w)) addr = mem w addr) \<and>
     (\<forall>x. clamp (Fin x) (Fin 0) (Fin 1) = Fin (max 0 (min 1 x))) \<and>
     (\<forall>x. 0 \<le> x \<longrightarrow> to_uint8 (Fin x) = word_of_int \<lfloor>x\<rfloor>)"
proof -
  note byte = process_byte [OF assms, of _ a dst exposure w]
  have "fst (process a this img dst exposure w) = Inr ()"
    using process_post [OF assms(1)] by simp
  moreover note byte [of 0, simplified] byte [of 1, simplified] byte [of 2, simplified]
  moreover have "\<forall>addr. addr < dst \<or> dst + 3 * (nat (size_y img) * nat (size_x img)) \<le> addr \<longrightarrow>
        mem (snd (process a this img dst exposure w)) addr = mem w addr"
    using process_frame [OF assms(1)] by blast
  moreover have "\<forall>x. clamp (Fin x) (Fin 0) (Fin 1) = Fin (max 0 (min 1 x))"
    by (simp add: clamp_def)
  moreover have "\<forall>x. 0 \<le> x \<longrightarrow> to_uint8 (Fin x) = word_of_int \<lfloor>x\<rfloor>"
    by (simp add: trunc_toward_zero_def)
  ultimately show ?thesis
    by (simp add: Let_def pixel_byte_def process_color_def)
qed

text \<open>
  The two-pixel image: the first pixel \<open>(1, 1, 1)\<close> has luminance 1 and
  \<open>Ld = log10 2 / log10 3\<close>, which lies between 17/27 and 12/19 because \<open>3 ^ 17 \<le> 2 ^ 27\<close>
  and \<open>2 ^ 19 < 3 ^ 12\<close>; its channels are \<open>Ld\<close> to the power 5/11, and 255 times that
  is at least 206.5 and less than 207.
\<close>

lemma powr_rational_power:
  fixes x :: real
  assumes "0 < x" "0 < n"
  shows "(x powr (real m / real n)) ^ n = x ^ m"
proof -
  have "(x powr (real m / real n)) ^ n = x powr (real n * (real m / real n))"
    using assms by (simp add: powr_power)
  also have "\<dots> = x powr real m" using assms by simp
  also have "\<dots> = x ^ m" using assms by (simp add: powr_realpow)
  finally show ?thesis .
qed

lemma powr_rational_bounds:
  fixes x lo hi :: real
  assumes "0 < x" "0 < n" "0 \<le> lo" "0 \<le> hi" "lo ^ n \<le> x ^ m" "x ^ m < hi ^ n"
  shows "lo \<le> x powr (real m / real n)" "x powr (real m / real n) < hi"
proof -
  let ?c = "x powr (real m / real n)"
  have c: "?c ^ n = x ^ m" using assms by (simp add: powr_rational_power)
  have "0 \<le> ?c" by simp
  obtain k where n: "n = Suc k" using assms(2) by (cases n) simp_all
  show "lo \<le> ?c"
    using assms(5) unfolding c [symmetric] n by (rule power_le_imp_le_base) simp
  show "?c < hi"
    using assms(6) unfolding c [symmetric] by (rule power_less_imp_less_base) (rule assms)
qed

lemma log_rational_bounds:
  fixes x b :: real
  assumes "1 < b" "0 < x" "0 < n"
  shows "b ^ m \<le> x ^ n \<Longrightarrow> real m / real n \<le> log b x"
    and "x ^ n < b ^ m \<Longrightarrow> log b x < real m / real n"
proof -
  have bp: "(b powr (real m / real n)) ^ n = b ^ m"
    using assms by (simp add: powr_rational_power)
  obtain k where n: "n = Suc k" using assms(3) by (cases n) simp_all
  {
    assume "b ^ m \<le> x ^ n"
    then have "(b powr (real m / real n)) ^ Suc k \<le> x ^ Suc k" unfolding bp [symmetric] n .
    then have "b powr (real m / real n) \<le> x"
      by (rule power_le_imp_le_base) (use assms in simp)
    then show "real m / real n \<le> log b x"
      using assms by (simp add: le_log_iff)
  }
  {
    assume "x ^ n < b ^ m"
    then have "x ^ n < (b powr (real m / real n)) ^ n" unfolding bp .
    then have "x < b powr (real m / real n)"
      by (rule power_less_imp_less_base) simp
    then show "log b x < real m / real n"
      using assms by (simp add: log_less_iff)
  }
qed

lemma Ld_first_pixel:
  "17 / 27 \<le> log 10 2 / log 10 (3::real)" "log 10 2 / log 10 (3::real) < 12 / 19"
proof -
  have eq: "log 10 2 / log 10 (3::real) = log 3 2"
    by (simp add: log_def)
  show "17 / 27 \<le> log 10 2 / log 10 (3::real)"
    unfolding eq using log_rational_bounds(1) [of 3 2 27 17] by simp
  show "log 10 2 / log 10 (3::real) < 12 / 19"
    unfolding eq using log_rational_bounds(2) [of 3 2 19 12] by simp
qed

lemma channel_first_pixel:
  "413 / 2 \<le> 255 * (log 10 2 / log 10 (3::real)) powr (5 / 11)"
  "255 * (log 10 2 / log 10 (3::real)) powr (5 / 11) < 207"
proof -
  let ?x = "log 10 2 / log 10 (3::real)"
  have pos: "0 < ?x" using Ld_first_pixel(1) by linarith
  have lo: "(413 / 510) ^ 11 \<le> ?x ^ 5"
  proof -
    have "(413 / 510 :: real) ^ 11 \<le> (17 / 27) ^ 5" by (simp add: power_divide field_simps)
    also have "\<dots> \<le> ?x ^ 5" using Ld_first_pixel(1) by (intro power_mono) simp_all
    finally show ?thesis .
  qed
  have hi: "?x ^ 5 < (207 / 255) ^ 11"
  proof -
    have "?x ^ 5 < (12 / 19) ^ 5" using Ld_first_pixel(2) pos by (intro power_strict_mono) simp_all
    also have "\<dots> < (207 / 255 :: real) ^ 11" by (simp add: power_divide field_simps)
    finally show ?thesis .
  qed
  have "413 / 510 \<le> ?x powr (real 5 / real 11)" "?x powr (real 5 / real 11) < 207 / 255"
    using powr_rational_bounds [of ?x 11 "413 / 510" "207 / 255" 5] pos lo hi by simp_all
  then show "413 / 2 \<le> 255 * ?x powr (5 / 11)" "255 * ?x powr (5 / 11) < 207"
    by simp_all
qed

lemma floor_first_pixel: "\<lfloor>255 * (log 10 2 / log 10 (3::real)) powr (5 / 11)\<rfloor> = 206"
  using channel_first_pixel by (intro floor_unique) simp_all

lemma process_color_unfold:
  "gammaCorrect a (clampedValue (divide_color a
      (scale_color a (map_Ld a (getLuminance a c) exposure Lmax p q) c) (getLuminance a c))) gamma =
   process_color a exposure gamma Lmax p q c"
  by (simp only: process_color_def Let_def)

lemma gamma_channel:
  assumes "0 < x" "x < 1"
  shows "fpow Exact (clamp (Fin x) (Fin 0) (Fin 1)) (fdiv Exact (Fin 1) (float_lit Exact 2.2)) =
     Fin (x powr (5 / 11))"
  using assms by (simp add: clamp_def fpow_def float_lit_def)

lemma first_pixel_color:
  "process_color Exact (Fin 1) (float_lit Exact 2.2) (getMaximumLuminance two_pixels) (Fin 1) (Fin 1)
     (ref two_pixels 0 0) =
   Color3f (Fin ((log 10 2 / log 10 3) powr (5 / 11))) (Fin ((log 10 2 / log 10 3) powr (5 / 11)))
     (Fin ((log 10 2 / log 10 3) powr (5 / 11)))"
proof -
  let ?x = "log 10 2 / log 10 (3::real)"
  have x: "0 < ?x" "?x < 1"
    using Ld_first_pixel by linarith+
  have px: "ref two_pixels 0 0 = Color3f (Fin 1) (Fin 1) (Fin 1)"
    "getMaximumLuminance two_pixels = Fin 2"
    by (simp_all add: two_pixels_def)
  have lum: "getLuminance Exact (Color3f (Fin 1) (Fin 1) (Fin 1)) = Fin 1"
    by (simp add: getLuminance_def float_lit_def)
  have Ld: "map_Ld Exact (Fin 1) (Fin 1) (Fin 2) (Fin 1) (Fin 1) = Fin ?x"
    using log_10_3 by (simp add: map_Ld_def)
  have sc: "divide_color Exact (scale_color Exact (Fin ?x) (Color3f (Fin 1) (Fin 1) (Fin 1))) (Fin 1) =
      Color3f (Fin ?x) (Fin ?x) (Fin ?x)"
    by (simp add: scale_color_def divide_color_def)
  show ?thesis
    unfolding process_color_def Let_def px lum Ld sc
    by (simp only: clampedValue_def gammaCorrect_def Color3f.sel gamma_channel [OF x])
qed

lemma second_pixel_color:
  "process_color Exact (Fin 1) (float_lit Exact 2.2) (getMaximumLuminance two_pixels) (Fin 1) (Fin 1)
     (ref two_pixels 0 1) = Color3f (Fin 1) (Fin 1) (Fin 1)"
  using log_10_3
  by (simp add: two_pixels_def process_color_def getLuminance_def float_lit_def map_Ld_def
      scale_color_def divide_color_def clampedValue_def clamp_def gammaCorrect_def fpow_def
      Let_def)

lemma first_pixel_byte:
  "to_uint8 (fmul Exact (Fin 255) (Fin ((log 10 2 / log 10 3) powr (5 / 11)))) = 206"
proof -
  have "0 \<le> 255 * (log 10 2 / log 10 (3::real)) powr (5 / 11)" by simp
  then show ?thesis
    by (simp only: fmul.simps rnd.simps to_uint8.simps trunc_toward_zero_def if_True
        floor_first_pixel) simp
qed

text \<open>
  An instance, with the default parameters and exposure 1: the bytes of the first pixel,
  at the addresses 0, 1 and 2, are 206, where rounding to the nearest integer would give
  207; the second pixel \<open>(2, 2, 2)\<close> has luminance 2 and \<open>Ld = 1\<close>, so its bytes, at the
  addresses 3, 4 and 5, are 255; the byte at address 6 is untouched.
\<close>

theorem process_bytes_witness:
  "has_parameters (setParameters (LogarithmicOperator Exact) two_pixels)
     (Parameter (float_lit Exact 2.2) (Fin 0) (Fin 10) ''gamma'' ''Gamma correction value'')
     (ParameterConst (getMaximumLuminance two_pixels) ''Lmax'')
     (Parameter (Fin 1) (Fin 0) (Fin 20) ''p'' ''Exponent numerator scale factor'')
     (Parameter (Fin 1) (Fin 0) (Fin 20) ''q'' ''Exponent denominator scale factor'') \<and>
   (0::int) \<le> 0 \<and> 0 < size_y two_pixels \<and> 0 < size_x two_pixels \<and>
   (0::int) \<le> 1 \<and> 1 < size_x two_pixels \<and>
   mem (snd (process Exact (setParameters (LogarithmicOperator Exact) two_pixels) two_pixels 0
          (Fin 1) zeroed)) 0 = 206 \<and>
   mem (snd (process Exact (setParameters (LogarithmicOperator Exact) two_pixels) two_pixels 0
          (Fin 1) zeroed)) 1 = 206 \<and>
   mem (snd (process Exact (setParameters (LogarithmicOperator Exact) two_pixels) two_pixels 0
          (Fin 1) zeroed)) 2 = 206 \<and>
   mem (snd (process Exact (setParameters (LogarithmicOperator Exact) two_pixels) two_pixels 0
          (Fin 1) zeroed)) 3 = 255 \<and>
   mem (snd (process Exact (setParameters (LogarithmicOperator Exact) two_pixels) two_pixels 0
          (Fin 1) zeroed)) 4 = 255 \<and>
   mem (snd (process Exact (setParameters (LogarithmicOperator Exact) two_pixels) two_pixels 0
          (Fin 1) zeroed)) 5 = 255 \<and>
   mem (snd (process Exact (setParameters (LogarithmicOperator Exact) two_pixels) two_pixels 0
          (Fin 1) zeroed)) 6 = 0 \<and>
   413 / 2 \<le> 255 * (log 10 2 / log 10 (3::real)) powr (5 / 11) \<and>
   255 * (log 10 2 / log 10 (3::real)) powr (5 / 11) < 207"
proof -
  let ?op = "setParameters (LogarithmicOperator Exact) two_pixels"
  let ?out = "mem (snd (process Exact ?op two_pixels 0 (Fin 1) zeroed))"
  note hp = has_parameters_setParameters [of Exact two_pixels]
  have sz: "(0::int) \<le> 0" "0 < size_y two_pixels" "0 < size_x two_pixels"
    "(0::int) \<le> 1" "1 < size_x two_pixels"
    by (simp_all add: two_pixels_def)
  have W: "nat (size_x two_pixels) = 2" "nat (size_y two_pixels) = 1"
    by (simp_all add: two_pixels_def)
  note p0 = process_bytes [OF hp sz(1,2) sz(1,3),
      where a = Exact and exposure = "Fin 1" and dst = 0 and w = zeroed,
      unfolded Let_def process_color_unfold value_of.simps first_pixel_color Color3f.sel
        first_pixel_byte W]
  note p1 = process_bytes [OF hp sz(1,2) sz(4,5),
      where a = Exact and exposure = "Fin 1" and dst = 0 and w = zeroed,
      unfolded Let_def process_color_unfold value_of.simps second_pixel_color Color3f.sel W]
  have "?out 0 = 206" "?out 1 = 206" "?out 2 = 206"
    using p0 by (simp_all add: numeral_2_eq_2)
  moreover have "?out 3 = 255" "?out 4 = 255" "?out 5 = 255"
    using p1 by (simp_all add: trunc_toward_zero_def)
  moreover have "?out 6 = 0"
    using p1 by (simp add: zeroed_def)
  ultimately show ?thesis
    using hp sz channel_first_pixel by simp
qed

text \<open>
  Claim C3. With the four parameters present, \<open>graph(value)\<close> is
  \<open>pow(clamp(map(value, 1, Lmax, p, q), 0, 1), 1 / gamma)\<close>: the core formula with the
  exposure fixed to 1, then the clamp to \<open>[0, 1]\<close>, then the gamma correction, in that
  order. \<open>graph\<close> is a function of the operator and the value that returns a number or
  an error and no operator: it has no effect on the operator's state.
\<close>

theorem graph_formula:
  assumes "has_parameters this gamma Lmax p q"
  shows "graph a this v =
     Inr (fpow a (clamp (map_Ld a v (Fin 1) (value_of Lmax) (value_of p) (value_of q)) (Fin 0) (Fin 1))
            (fdiv a (Fin 1) (value_of gamma)))"
  using assms by (rule graph_has_parameters)

text \<open>
  An instance: after \<open>setParameters\<close> with the two-pixel image, \<open>graph(2)\<close> is 1.
\<close>

theorem graph_formula_witness:
  "has_parameters (setParameters (LogarithmicOperator Exact) two_pixels)
     (Parameter (float_lit Exact 2.2) (Fin 0) (Fin 10) ''gamma'' ''Gamma correction value'')
     (ParameterConst (getMaximumLuminance two_pixels) ''Lmax'')
     (Parameter (Fin 1) (Fin 0) (Fin 20) ''p'' ''Exponent numerator scale factor'')
     (Parameter (Fin 1) (Fin 0) (Fin 20) ''q'' ''Exponent denominator scale factor'') \<and>
   graph Exact (setParameters (LogarithmicOperator Exact) two_pixels) (Fin 2) = Inr (Fin 1)"
  using graph_formula [OF has_parameters_setParameters, where a = Exact and img1 = two_pixels and v = "Fin 2"]
    has_parameters_setParameters [of Exact two_pixels] log_10_3
  by (simp add: two_pixels_def map_Ld_def clamp_def fpow_def)

text \<open>
  Claim C10. For an image with \<open>W H = 0\<close> and the four parameters present, \<open>process\<close>
  returns normally with the memory behind \<open>dst\<close> unchanged and the caller's progress value
  exactly 0, whatever it was before. The increment \<open>1 / (W H)\<close> is computed, and is plus
  infinity, but is never added.
\<close>

theorem process_empty_image:
  assumes "has_parameters this gamma Lmax p q" and "size_x img * size_y img = 0"
  shows "process a this img dst exposure w = (Inr (), w\<lparr>progress := Fin 0\<rparr>) \<and>
     process_delta a img = PInf"
proof -
  have zero: "nat (size_y img) * nat (size_x img) = 0" using assms(2) by auto
  have "mem (snd (process a this img dst exposure w)) = mem w"
  proof
    fix x show "mem (snd (process a this img dst exposure w)) x = mem w x"
      using process_frame [OF assms(1), of x dst img a exposure w] zero by (cases "x < dst") simp_all
  qed
  moreover have "progress (snd (process a this img dst exposure w)) = Fin 0"
    using process_progress [OF assms(1), of a img dst exposure w] zero by simp
  ultimately have "snd (process a this img dst exposure w) = w\<lparr>progress := Fin 0\<rparr>"
    by (intro World_eqI) simp_all
  moreover have "fst (process a this img dst exposure w) = Inr ()"
    using process_post [OF assms(1)] by simp
  moreover have "process_delta a img = PInf"
    unfolding process_delta_def float_of_int_def assms(2) by (simp add: signed_inf_def)
  ultimately show ?thesis by (simp add: prod_eq_iff)
qed

text \<open>
  An instance: an image of width 0 and height 3.
\<close>

theorem process_empty_image_witness:
  "has_parameters (setParameters (LogarithmicOperator Exact) no_pixels)
     (Parameter (float_lit Exact 2.2) (Fin 0) (Fin 10) ''gamma'' ''Gamma correction value'')
     (ParameterConst (getMaximumLuminance no_pixels) ''Lmax'')
     (Parameter (Fin 1) (Fin 0) (Fin 20) ''p'' ''Exponent numerator scale factor'')
     (Parameter (Fin 1) (Fin 0) (Fin 20) ''q'' ''Exponent denominator scale factor'') \<and>
   size_x no_pixels * size_y no_pixels = 0 \<and>
   process Exact (setParameters (LogarithmicOperator Exact) no_pixels) no_pixels 0 (Fin 1) zeroed =
     (Inr (), zeroed\<lparr>progress := Fin 0\<rparr>) \<and>
   process_delta Exact no_pixels = PInf"
proof -
  have z: "size_x no_pixels * size_y no_pixels = 0" by (simp add: no_pixels_def)
  show ?thesis
    using process_empty_image [OF has_parameters_setParameters z, where a = Exact and exposure = "Fin 1" and dst = 0 and w = zeroed]
      has_parameters_setParameters [of Exact no_pixels] z
    by simp
qed

section \<open>The progress value\<close>

lemma progress_binary32_rising:
  "n \<le> 2 ^ 24 \<Longrightarrow>
     ((\<lambda>x. fadd Binary32 x (Fin (1 / 2 ^ 25))) ^^ n) (Fin 0) = Fin (real n / 2 ^ 25)"
proof (induction n)
  case 0
  show ?case by simp
next
  case (Suc n)
  then have n: "n < 2 ^ 24" by simp
  have "round32 (real n / 2 ^ 25 + 1 / 2 ^ 25) = Fin (real n / 2 ^ 25 + 1 / 2 ^ 25)"
  proof (cases "Suc n = 2 ^ 24")
    case True
    then have "real (Suc n) = 2 ^ 24" by (metis of_nat_numeral of_nat_power)
    then have eq: "real n / 2 ^ 25 + 1 / 2 ^ 25 = 1 / 2" by (simp add: field_simps)
    have "round32 (1 / 2) = Fin (1 / 2)"
      using round32_representable [of "1 / 2" 1 "- 1"] by (simp add: power_int_minus)
    then show ?thesis unfolding eq .
  next
    case False
    then have "int n + 1 < 2 ^ 24" using n by simp
    then show ?thesis
      by (intro round32_representable [where n = "int n + 1" and k = "- 25"])
        (simp_all add: power_int_minus field_simps)
  qed
  moreover have "((\<lambda>x. fadd Binary32 x (Fin (1 / 2 ^ 25))) ^^ n) (Fin 0) = Fin (real n / 2 ^ 25)"
    using Suc by simp
  moreover have "real n / 2 ^ 25 + 1 / 2 ^ 25 = real (Suc n) / 2 ^ 25"
    by (simp add: field_simps)
  ultimately show ?case
    by (simp only: funpow.simps o_apply fadd.simps rnd.simps)
qed

lemma progress_binary32_stalls:
  "((\<lambda>x. fadd Binary32 x (Fin (1 / 2 ^ 25))) ^^ n) (Fin (1 / 2)) = Fin (1 / 2)"
proof (induction n)
  case 0
  show ?case by simp
next
  case (Suc n)
  then show ?case
    by (simp only: funpow.simps o_apply fadd.simps rnd.simps round32_tie_half)
qed

lemma progress_binary32_total:
  "((\<lambda>x. fadd Binary32 x (Fin (1 / 2 ^ 25))) ^^ (2 ^ 24 + n)) (Fin 0) = Fin (1 / 2)"
proof -
  have "((\<lambda>x. fadd Binary32 x (Fin (1 / 2 ^ 25))) ^^ (2 ^ 24)) (Fin 0) = Fin (real (2 ^ 24) / 2 ^ 25)"
    by (rule progress_binary32_rising) simp
  then have "((\<lambda>x. fadd Binary32 x (Fin (1 / 2 ^ 25))) ^^ (2 ^ 24)) (Fin 0) = Fin (1 / 2)"
    by simp
  then show ?thesis
    by (simp only: add.commute [of "2 ^ 24" n] funpow_add o_apply progress_binary32_stalls)
qed

lemma delta_large_image: "process_delta Binary32 large_image = Fin (1 / 2 ^ 25)"
proof -
  have "round32 33554432 = Fin 33554432"
    using round32_representable [of 33554432 1 25] by simp
  moreover have "round32 (1 / 33554432) = Fin (1 / 33554432)"
    using round32_representable [of "1 / 33554432" 1 "- 25"] by (simp add: power_int_minus)
  ultimately show ?thesis
    by (simp add: process_delta_def float_of_int_def large_image_def)
qed

text \<open>
  Claim C7 says that the progress value is strictly increasing during the loop and ends
  within floating-point tolerance of 1.0, for every image with pixels. In binary32 it does
  not for the image of 8192 by 4096 pixels: the increment is \<open>2 ^ -25\<close>, after \<open>2 ^ 24\<close>
  pixels the progress value is exactly one half, and one half plus \<open>2 ^ -25\<close> rounds to one
  half (a tie between one half and the next number, broken to the even one). The progress
  value is one half when \<open>process\<close> returns.
\<close>

theorem progress_stalls:
  "fst (process Binary32 (setParameters (LogarithmicOperator Binary32) large_image)
     large_image 0 (Fin 1) zeroed) = Inr () \<and>
   process_delta Binary32 large_image = Fin (1 / 2 ^ 25) \<and>
   progress (snd (process Binary32 (setParameters (LogarithmicOperator Binary32) large_image)
     large_image 0 (Fin 1) zeroed)) = Fin (1 / 2)"
proof -
  have "nat (size_y large_image) * nat (size_x large_image) = 2 ^ 24 + 2 ^ 24"
    by (simp add: large_image_def)
  moreover have "fst (process Binary32 (setParameters (LogarithmicOperator Binary32) large_image)
     large_image 0 (Fin 1) zeroed) = Inr ()"
    using process_post [OF has_parameters_setParameters] by simp
  ultimately show ?thesis
    using process_progress [OF has_parameters_setParameters,
        where a = Binary32 and img = large_image and dst = 0 and exposure = "Fin 1" and w = zeroed]
    by (simp only: delta_large_image progress_binary32_total simp_thms)
qed

text \<open>
  In both arithmetics \<open>process\<close> adds the increment once per pixel, \<open>W H\<close> times in all
  (\<open>process_progress\<close> above); in exact arithmetic the progress value ends at 1.
\<close>

lemma progress_exact_iter:
  "((\<lambda>x. fadd Exact x (Fin d)) ^^ n) (Fin 0) = Fin (real n * d)"
  by (induction n) (simp_all add: algebra_simps)

lemma progress_exact:
  assumes "has_parameters this gamma Lmax p q" and "0 < size_x img" "0 < size_y img"
  shows "progress (snd (process Exact this img dst exposure w)) = Fin 1"
proof -
  have d: "process_delta Exact img = Fin (1 / (real_of_int (size_x img) * real_of_int (size_y img)))"
    using assms(2,3) by (simp add: process_delta_def float_of_int_def)
  have "real (nat (size_y img) * nat (size_x img)) = real_of_int (size_x img) * real_of_int (size_y img)"
    using assms(2,3) by simp
  then show ?thesis
    using assms(2,3) by (simp only: process_progress [OF assms(1)] d progress_exact_iter) simp
qed

section \<open>The shader and the CPU path\<close>

lemma glsl_clamp_unit: "glsl_clamp x (Fin 0) (Fin 1) = clamp x (Fin 0) (Fin 1)"
  by (cases x) (simp_all add: glsl_clamp_def glsl_min_def glsl_max_def clamp_def)

lemma shader_getLuminance_eq:
  "shader_getLuminance a (vec4 x y z t) = getLuminance a (Color3f x y z)"
  by (simp add: shader_getLuminance_def getLuminance_def)

lemma getLuminance_scaled:
  "getLuminance Exact (Color3f (Fin (e * x)) (Fin (e * y)) (Fin (e * z))) =
     fmul Exact (Fin e) (getLuminance Exact (Color3f (Fin x) (Fin y) (Fin z)))"
  by (simp add: getLuminance_def float_lit_def algebra_simps)

lemma getLuminance_finite:
  "getLuminance Exact (Color3f (Fin x) (Fin y) (Fin z)) =
     Fin (0.212671 * x + 0.71516 * y + 0.072169 * z)"
  by (simp add: getLuminance_def float_lit_def)

lemma flog_over_ln10: "fdiv Exact (flog Exact x) (flog Exact (Fin 10)) = flog10 Exact x"
  by (cases x) (simp_all add: log_def signed_inf_def)

lemma map_Ld_exposure_zero: "map_Ld Exact (Fin Lw) (Fin 0) Lmax p q = NaN"
proof -
  have num: "flog10 Exact (fadd Exact (Fin 1) (fmul Exact p (Fin 0))) \<in> {Fin 0, NaN}"
    by (cases p) simp_all
  have den: "flog10 Exact (fadd Exact (Fin 1) (fmul Exact (fmul Exact q (Fin 0)) Lmax)) \<in> {Fin 0, NaN}"
    by (cases q; cases Lmax) simp_all
  from num den show ?thesis
    by (auto simp: map_Ld_def)
qed

lemma map_Ld_luminance_zero: "map_Ld Exact (Fin 0) (Fin e) Lmax p q \<in> {Fin 0, NaN}"
proof -
  have num: "flog10 Exact (fadd Exact (Fin 1) (fmul Exact p (Fin 0))) \<in> {Fin 0, NaN}"
    by (cases p) simp_all
  have "fdiv Exact (Fin 0) y \<in> {Fin 0, NaN}" for y
    by (cases y) simp_all
  from num this [of "flog10 Exact (fadd Exact (Fin 1) (fmul Exact (fmul Exact q (Fin e)) Lmax))"]
  show ?thesis
    by (auto simp: map_Ld_def)
qed

lemma map_Ld_infinite:
  assumes "map_Ld Exact (Fin Lw) (Fin e) Lmax p q \<in> {PInf, NInf}"
  shows "e \<noteq> 0 \<and> Lw \<noteq> 0"
  using assms map_Ld_exposure_zero [of Lw Lmax p q] map_Ld_luminance_zero [of e Lmax p q]
  by auto

lemma infinite_channel_scaled:
  assumes "e \<noteq> 0" "Lw \<noteq> 0"
  shows "fdiv Exact (fmul Exact PInf (Fin (e * c))) (Fin (e * Lw)) =
       fdiv Exact (fmul Exact PInf (Fin c)) (Fin Lw)"
    and "fdiv Exact (fmul Exact NInf (Fin (e * c))) (Fin (e * Lw)) =
       fdiv Exact (fmul Exact NInf (Fin c)) (Fin Lw)"
  using assms
  by (cases "0 < e"; cases "0 < Lw"; cases "0 < c"; cases "c = 0";
      simp add: signed_inf_def zero_less_mult_iff mult_less_0_iff zero_le_mult_iff
        mult_le_0_iff not_less not_le)+

lemma channel_scaled:
  assumes "Ld = map_Ld Exact (Fin Lw) (Fin e) Lmax p q"
  shows "fdiv Exact (fmul Exact Ld (Fin (e * c))) (Fin (e * Lw)) =
     fdiv Exact (fmul Exact Ld (Fin c)) (Fin Lw)"
proof (cases Ld)
  case (Fin d)
  show ?thesis
  proof (cases "e = 0 \<or> Lw = 0")
    case True
    then show ?thesis
      using assms Fin map_Ld_exposure_zero [of Lw Lmax p q] map_Ld_luminance_zero [of e Lmax p q]
      by auto
  next
    case False
    then show ?thesis using Fin by simp
  qed
next
  case PInf
  then have "e \<noteq> 0 \<and> Lw \<noteq> 0" using assms map_Ld_infinite [of Lw e Lmax p q] by simp
  then show ?thesis using PInf infinite_channel_scaled(1) by simp
next
  case NInf
  then have "e \<noteq> 0 \<and> Lw \<noteq> 0" using assms map_Ld_infinite [of Lw e Lmax p q] by simp
  then show ?thesis using NInf infinite_channel_scaled(2) by simp
next
  case NaN
  then show ?thesis by simp
qed

text \<open>
  Claim C6. In exact arithmetic the fragment shader and the CPU path compute the same
  function of a pixel: for a texel with finite colour channels and a finite exposure, the
  output colour of the shader's \<open>main\<close> has the three channels that lines 93 to 98 of
  \<open>process\<close> compute for the same colour, and alpha 1. The luminance of the shader and
  the luminance of the CPU path are the same function in both arithmetics: the same three
  weights 0.212671, 0.71516 and 0.072169, combined in the same order.
\<close>

theorem shader_agrees:
  "shader_main Exact (vec4 (Fin x) (Fin y) (Fin z) t) (Fin e) gamma Lmax p q =
     (let c = process_color Exact (Fin e) gamma Lmax p q (Color3f (Fin x) (Fin y) (Fin z))
      in vec4 (r c) (g c) (b c) (Fin 1)) \<and>
   shader_getLuminance a (vec4 cr cg cb ca) = getLuminance a (Color3f cr cg cb)"
proof -
  define Lw where "Lw = 0.212671 * x + 0.71516 * y + 0.072169 * z"
  define Ld where "Ld = map_Ld Exact (Fin Lw) (Fin e) Lmax p q"
  have lum: "getLuminance Exact (Color3f (Fin x) (Fin y) (Fin z)) = Fin Lw"
    by (simp add: getLuminance_finite Lw_def)
  have slum: "shader_getLuminance Exact (vec4 (Fin (e * x)) (Fin (e * y)) (Fin (e * z)) u) = Fin (e * Lw)" for u
    by (simp add: shader_getLuminance_eq getLuminance_scaled lum)
  have sLd: "fdiv Exact
       (fdiv Exact (flog Exact (fadd Exact (Fin 1) (fmul Exact p (Fin (e * Lw))))) (flog Exact (Fin 10)))
       (fdiv Exact (flog Exact (fadd Exact (Fin 1) (fmul Exact (fmul Exact q (Fin e)) Lmax)))
          (flog Exact (Fin 10))) = Ld"
    by (simp only: flog_over_ln10 Ld_def map_Ld_def Let_def fmul.simps rnd.simps)
  note ch = channel_scaled [OF Ld_def]
  have "shader_main Exact (vec4 (Fin x) (Fin y) (Fin z) t) (Fin e) gamma Lmax p q =
     (let c = process_color Exact (Fin e) gamma Lmax p q (Color3f (Fin x) (Fin y) (Fin z))
      in vec4 (r c) (g c) (b c) (Fin 1))"
    unfolding shader_main_def process_color_def Let_def lum Ld_def [symmetric]
    apply (simp only: vec4.sel fmul.simps rnd.simps slum sLd)
    apply (simp only: shader_adjustColor_def shader_clampedValue_def shader_gammaCorrect_def
        Let_def vec4.sel ch glsl_clamp_unit scale_color_def divide_color_def clampedValue_def
        gammaCorrect_def Color3f.sel)
    apply (simp add: clamp_def fpow_one)
    done
  then show ?thesis
    by (simp add: shader_getLuminance_eq)
qed

end
